theory Spec2Isabelle
  imports Main "HOL-Library.Multiset"
begin

section \<open>JavaScript values and operators used by the AI Analysis pages\<close>

text \<open>
  The TypeScript sources compute with optional numbers, strings and parsed JSON.
  A value is one of the JSON shapes or \<open>undefined\<close>.  Numbers are the integers
  the sources handle (counts, millisecond timestamps, limits); \<open>NaN\<close> and fractions
  are outside this model.  A string is its list of code units.
\<close>

datatype jsval =
    Undefined
  | Null
  | Bool bool
  | Num int
  | Str string
  | Arr "jsval list"
  | Obj "(string \<times> jsval) list"

text \<open>ToBoolean: \<open>undefined\<close>, \<open>null\<close>, \<open>false\<close>, \<open>0\<close> and \<open>''\<close> are falsy.\<close>

fun truthy :: "jsval \<Rightarrow> bool" where
  "truthy Undefined = False"
| "truthy Null = False"
| "truthy (Bool b) = b"
| "truthy (Num n) = (n \<noteq> 0)"
| "truthy (Str s) = (s \<noteq> [])"
| "truthy (Arr _) = True"
| "truthy (Obj _) = True"

text \<open>\<open>a || b\<close>, \<open>a && b\<close> and \<open>a ?? b\<close> (both operands are pure here).\<close>

definition js_or :: "jsval \<Rightarrow> jsval \<Rightarrow> jsval" where
  "js_or a b = (if truthy a then a else b)"

definition js_and :: "jsval \<Rightarrow> jsval \<Rightarrow> jsval" where
  "js_and a b = (if truthy a then b else a)"

definition js_nullish :: "jsval \<Rightarrow> jsval \<Rightarrow> jsval" where
  "js_nullish a b = (if a = Undefined \<or> a = Null then b else a)"

text \<open>An optional numeric field \<open>f?: number\<close> read from an object.\<close>

fun opt_num :: "int option \<Rightarrow> jsval" where
  "opt_num None = Undefined"
| "opt_num (Some n) = Num n"

fun opt_bool :: "bool option \<Rightarrow> jsval" where
  "opt_bool None = Undefined"
| "opt_bool (Some b) = Bool b"

section \<open>types.ts: the entities of the responses\<close>

datatype HypothesisStatus = TESTING | VALIDATED | REJECTED

record Evidence =
  trace_id :: string
  rationale :: string
  supports :: bool

record Hypothesis =
  hypothesis_id :: string
  statement :: string
  testing_plan :: "string option"
  h_status :: HypothesisStatus
  h_evidence :: "Evidence list option"
  evidence_count :: "int option"
  h_trace_count :: "int option"
  supports_count :: "int option"
  refutes_count :: "int option"
  h_metrics :: "(string \<times> jsval) list option"
  h_created_at :: int
  h_updated_at :: int
  h_metadata :: "(string \<times> jsval) list option"

section \<open>RunsView.tsx: the evidence item count of HypothesisPanel\<close>

text \<open>
  \<^verbatim>\<open>{hypothesis.evidence_count || hypothesis.evidence?.length || 0} evidence items\<close>

  \<open>evidence?.length\<close> is \<open>undefined\<close> when the list is omitted.
\<close>

definition evidence_length :: "Hypothesis \<Rightarrow> jsval" where
  "evidence_length h =
     (case h_evidence h of None \<Rightarrow> Undefined | Some es \<Rightarrow> Num (int (length es)))"

definition HypothesisPanel_evidence_items :: "Hypothesis \<Rightarrow> jsval" where
  "HypothesisPanel_evidence_items h =
     js_or (js_or (opt_num (evidence_count h)) (evidence_length h)) (Num 0)"

section \<open>useAgenticInsightsApi.ts: the polling interval of useHypothesesList\<close>

text \<open>
  The \<open>options\<close> argument is itself optional, and so is each of its fields;
  \<open>refetchInterval\<close> is a number of milliseconds or \<open>false\<close>.
\<close>

datatype RefetchInterval = Ms int | NoRefetch

record HypothesesListOptions =
  enabled :: "bool option"
  refetchInterval :: "RefetchInterval option"
  isActiveRun :: "bool option"

text \<open>\<open>options?.isActiveRun\<close> and \<open>options?.refetchInterval\<close>: optional chaining.\<close>

definition opt_isActiveRun :: "HypothesesListOptions option \<Rightarrow> jsval" where
  "opt_isActiveRun options =
     (case options of None \<Rightarrow> Undefined | Some opts \<Rightarrow> opt_bool (isActiveRun opts))"

definition opt_refetchInterval :: "HypothesesListOptions option \<Rightarrow> RefetchInterval option" where
  "opt_refetchInterval options =
     (case options of None \<Rightarrow> None | Some opts \<Rightarrow> refetchInterval opts)"

text \<open>
  \<^verbatim>\<open>const refetchInterval = options?.isActiveRun ? 2000 : (options?.refetchInterval ?? 30000);\<close>
\<close>

definition useHypothesesList_refetchInterval :: "HypothesesListOptions option \<Rightarrow> RefetchInterval" where
  "useHypothesesList_refetchInterval options =
     (if truthy (opt_isActiveRun options) then Ms 2000
      else (case opt_refetchInterval options of None \<Rightarrow> Ms 30000 | Some r \<Rightarrow> r))"

text \<open>
  \<^verbatim>\<open>staleTime: options?.isActiveRun ? 1000 : 10000\<close>
\<close>

definition useHypothesesList_staleTime :: "HypothesesListOptions option \<Rightarrow> int" where
  "useHypothesesList_staleTime options =
     (if truthy (opt_isActiveRun options) then 1000 else 10000)"

text \<open>
  HypothesisPanel calls the hook with \<^verbatim>\<open>{ isActiveRun: isActive }\<close>, where
  \<open>isActive\<close> is \<^verbatim>\<open>selectedRun.status === 'ACTIVE'\<close>.
\<close>

datatype AnalysisStatus = ACTIVE | COMPLETED | ARCHIVED

definition HypothesisPanel_options :: "bool \<Rightarrow> HypothesesListOptions option" where
  "HypothesisPanel_options isActive =
     Some \<lparr> enabled = None, refetchInterval = None, isActiveRun = Some isActive \<rparr>"

definition HypothesisPanel_refetchInterval :: "AnalysisStatus \<Rightarrow> RefetchInterval" where
  "HypothesisPanel_refetchInterval status =
     useHypothesesList_refetchInterval (HypothesisPanel_options (status = ACTIVE))"

section \<open>types.ts: issues\<close>

datatype Severity = CRITICAL | HIGH | MEDIUM | LOW

datatype IssueStatus = OPEN | IN_PROGRESS | RESOLVED | ISSUE_REJECTED

record IssueEvidence =
  ie_trace_id :: string
  ie_rationale :: string

record Issue =
  issue_id :: string
  source_run_id :: "string option"
  i_hypothesis_id :: "string option"
  title :: string
  description :: string
  severity :: Severity
  status :: IssueStatus
  i_evidence :: "IssueEvidence list option"
  trace_count :: "int option"
  assessments :: "string list option"
  resolution :: "string option"
  created_at :: int
  updated_at :: int
  i_metadata :: "(string \<times> jsval) list option"

text \<open>The string each status is on the wire: \<open>a.status\<close> is compared as a string.\<close>

fun status_string :: "IssueStatus \<Rightarrow> string" where
  "status_string OPEN = ''OPEN''"
| "status_string IN_PROGRESS = ''IN_PROGRESS''"
| "status_string RESOLVED = ''RESOLVED''"
| "status_string ISSUE_REJECTED = ''REJECTED''"

section \<open>IssuesView.tsx: sortedIssues\<close>

datatype SortField = Field_trace_count | Field_severity | Field_created_at | Field_status

datatype SortOrder = Asc | Desc

text \<open>
  \<^verbatim>\<open>const severityOrder = { 'CRITICAL': 4, 'HIGH': 3, 'MEDIUM': 2, 'LOW': 1 };\<close>
\<close>

fun severityOrder :: "Severity \<Rightarrow> int" where
  "severityOrder CRITICAL = 4"
| "severityOrder HIGH = 3"
| "severityOrder MEDIUM = 2"
| "severityOrder LOW = 1"

text \<open>
  \<open>String.prototype.localeCompare\<close> belongs to the runtime.  It is modelled as
  the comparison of the code units, answering \<open>-1\<close>, \<open>0\<close> or \<open>1\<close>.  On the four
  status literals every comparison is decided between two upper-case Latin letters,
  where locale collation and code unit order agree.
\<close>

fun localeCompare :: "string \<Rightarrow> string \<Rightarrow> int" where
  "localeCompare [] [] = 0"
| "localeCompare [] (y # ys) = - 1"
| "localeCompare (x # xs) [] = 1"
| "localeCompare (x # xs) (y # ys) =
     (if (of_char x :: nat) < of_char y then - 1
      else if (of_char y :: nat) < of_char x then 1
      else localeCompare xs ys)"

text \<open>\<open>a.trace_count || 0\<close> as a number.\<close>

definition trace_count_or_0 :: "Issue \<Rightarrow> int" where
  "trace_count_or_0 a = (case js_or (opt_num (trace_count a)) (Num 0) of Num n \<Rightarrow> n | _ \<Rightarrow> 0)"

text \<open>The \<open>switch (sortField)\<close> of the comparator: the value before the order is applied.\<close>

fun compareValue :: "SortField \<Rightarrow> Issue \<Rightarrow> Issue \<Rightarrow> int" where
  "compareValue Field_trace_count a b = trace_count_or_0 a - trace_count_or_0 b"
| "compareValue Field_severity a b = severityOrder (severity a) - severityOrder (severity b)"
| "compareValue Field_created_at a b = created_at a - created_at b"
| "compareValue Field_status a b = localeCompare (status_string (status a)) (status_string (status b))"

text \<open>
  \<^verbatim>\<open>return sortOrder === 'desc' ? -compareValue : compareValue;\<close>
\<close>

definition comparator :: "SortField \<Rightarrow> SortOrder \<Rightarrow> Issue \<Rightarrow> Issue \<Rightarrow> int" where
  "comparator sortField sortOrder a b =
     (if sortOrder = Desc then - compareValue sortField a b else compareValue sortField a b)"

text \<open>
  \<open>Array.prototype.sort\<close> with a comparator is a stable sort (ECMAScript 2019): an
  element goes before another when the comparator is negative, and elements that
  compare equal keep their order.  For a comparator that is a total preorder, as
  all four here are, that fixes the result; it is computed by stable insertion.
\<close>

fun insert_by :: "('a \<Rightarrow> 'a \<Rightarrow> int) \<Rightarrow> 'a \<Rightarrow> 'a list \<Rightarrow> 'a list" where
  "insert_by cmp x [] = [x]"
| "insert_by cmp x (y # ys) =
     (if cmp x y \<le> 0 then x # y # ys else y # insert_by cmp x ys)"

definition array_sort :: "('a \<Rightarrow> 'a \<Rightarrow> int) \<Rightarrow> 'a list \<Rightarrow> 'a list" where
  "array_sort cmp xs = foldr (insert_by cmp) xs []"

text \<open>
  \<^verbatim>\<open>if (!data?.issues) return [];
  return [...data.issues].sort((a, b) => ...);\<close>

  The argument is \<open>data?.issues\<close>: \<open>None\<close> while there is no response.
\<close>

definition sortedIssues :: "Issue list option \<Rightarrow> SortField \<Rightarrow> SortOrder \<Rightarrow> Issue list" where
  "sortedIssues issues sortField sortOrder =
     (case issues of None \<Rightarrow> [] | Some xs \<Rightarrow> array_sort (comparator sortField sortOrder) xs)"

text \<open>The state of the view when it mounts: \<open>useState('trace_count')\<close>, \<open>useState('desc')\<close>.\<close>

definition default_sortedIssues :: "Issue list option \<Rightarrow> Issue list" where
  "default_sortedIssues issues = sortedIssues issues Field_trace_count Desc"

section \<open>useAgenticInsightsApi.ts: the request bodies of the preview hooks\<close>

record TracePreview =
  tp_trace_id :: string
  request_id :: string
  tp_status :: string
  execution_time_ms :: int
  timestamp :: int
  evidence_rationale :: "string option"

record PreviewTracesResponse =
  traces :: "TracePreview list"
  total_count :: int
  returned_count :: int

text \<open>
  \<^verbatim>\<open>...(maxTraces && { max_traces: maxTraces })\<close>

  The operand of the spread is \<open>undefined\<close>, the number \<open>0\<close> or the object;
  spreading \<open>undefined\<close> or a number adds no property.
\<close>

definition max_traces_spread :: "int option \<Rightarrow> (string \<times> jsval) list" where
  "max_traces_spread maxTraces =
     (case js_and (opt_num maxTraces) (Obj [(''max_traces'', opt_num maxTraces)]) of
        Obj props \<Rightarrow> props
      | _ \<Rightarrow> [])"

text \<open>
  \<^verbatim>\<open>{ experiment_id: experimentId!, ...(maxTraces && { max_traces: maxTraces }) }\<close>
  and the same with \<open>insights_run_id: runId!\<close>.  The query runs only when the
  identifier is a non-empty string (\<open>enabled\<close>), so it is a string here.
\<close>

definition useIssuesPreview_request :: "string \<Rightarrow> int option \<Rightarrow> (string \<times> jsval) list" where
  "useIssuesPreview_request experimentId maxTraces =
     (''experiment_id'', Str experimentId) # max_traces_spread maxTraces"

definition useHypothesesPreview_request :: "string \<Rightarrow> int option \<Rightarrow> (string \<times> jsval) list" where
  "useHypothesesPreview_request runId maxTraces =
     (''insights_run_id'', Str runId) # max_traces_spread maxTraces"

section \<open>useAgenticInsightsApi.ts: postAgenticApi\<close>

text \<open>
  What \<open>fetch\<close> hands back: a rejection, or a response with its \<open>ok\<close> flag, its
  status text and the outcome of \<open>response.json()\<close> (\<open>None\<close> when the body is not
  JSON and the promise rejects).
\<close>

record Response =
  ok :: bool
  statusText :: string
  json :: "jsval option"

datatype FetchOutcome = FetchRejected | Responded Response

text \<open>
  What the helper throws: \<open>new Error(v)\<close> (its message is \<open>String(v)\<close>), the
  TypeError of reading a property of \<open>null\<close>, or a rejection passed on.
\<close>

datatype Thrown =
    Error jsval
  | TypeError_property_of_null
  | JsonRejected
  | FetchFailed

text \<open>
  \<open>errorData.message\<close>: the property of an object, \<open>undefined\<close> on any other
  JSON value, and a TypeError on \<open>null\<close> (and \<open>undefined\<close>).
\<close>

fun message_of :: "jsval \<Rightarrow> Thrown + jsval" where
  "message_of Null = Inl TypeError_property_of_null"
| "message_of Undefined = Inl TypeError_property_of_null"
| "message_of (Obj props) =
     Inr (case map_of props ''message'' of None \<Rightarrow> Undefined | Some m \<Rightarrow> m)"
| "message_of _ = Inr Undefined"

text \<open>
  \<^verbatim>\<open>if (!response.ok) {
    const errorData = await response.json().catch(() => ({}));
    throw new Error(errorData.message || `API request failed: ${response.statusText}`);
  }
  return response.json();\<close>
\<close>

definition postAgenticApi :: "FetchOutcome \<Rightarrow> Thrown + jsval" where
  "postAgenticApi outcome =
     (case outcome of
        FetchRejected \<Rightarrow> Inl FetchFailed
      | Responded response \<Rightarrow>
          if \<not> ok response then
            (let errorData = (case json response of None \<Rightarrow> Obj [] | Some v \<Rightarrow> v) in
             case message_of errorData of
               Inl e \<Rightarrow> Inl e
             | Inr m \<Rightarrow>
                 Inl (Error (js_or m (Str (''API request failed: '' @ statusText response)))))
          else (case json response of None \<Rightarrow> Inl JsonRejected | Some v \<Rightarrow> Inr v))"

section \<open>TracePreview.tsx: formatValue\<close>









section \<open>InsightsPageAIAnalysis.tsx: the subpage in the URL\<close>

text \<open>
  \<open>URLSearchParams\<close> is an ordered list of pairs: \<open>get\<close> answers the first value
  of a name or \<open>null\<close>, \<open>delete\<close> removes every pair of the name, \<open>set\<close> overwrites
  the first pair of the name and removes the others, or appends a pair.
\<close>

type_synonym URLSearchParams = "(string \<times> string) list"

definition params_get :: "URLSearchParams \<Rightarrow> string \<Rightarrow> string option" where
  "params_get params name = map_of params name"

definition params_delete :: "URLSearchParams \<Rightarrow> string \<Rightarrow> URLSearchParams" where
  "params_delete params name = filter (\<lambda>p. fst p \<noteq> name) params"

fun params_set :: "URLSearchParams \<Rightarrow> string \<Rightarrow> string \<Rightarrow> URLSearchParams" where
  "params_set [] name v = [(name, v)]"
| "params_set (p # params) name v =
     (if fst p = name then (name, v) # params_delete params name
      else p # params_set params name v)"

definition AI_ANALYSIS_SUBPAGE_PARAM :: string where
  "AI_ANALYSIS_SUBPAGE_PARAM = ''aiAnalysisSubpage''"

text \<open>\<open>type AIAnalysisSubpage = 'issues' | 'runs'\<close>: the values of the two tabs.\<close>

datatype AIAnalysisSubpage = Issues | Runs

fun subpage_value :: "AIAnalysisSubpage \<Rightarrow> string" where
  "subpage_value Issues = ''issues''"
| "subpage_value Runs = ''runs''"

text \<open>
  \<^verbatim>\<open>const currentSubpage = (searchParams.get(AI_ANALYSIS_SUBPAGE_PARAM) as AIAnalysisSubpage) || 'issues';\<close>

  The cast checks nothing; \<open>||\<close> takes the default for \<open>null\<close> and for the
  empty string.
\<close>

definition currentSubpage :: "URLSearchParams \<Rightarrow> string" where
  "currentSubpage searchParams =
     (case params_get searchParams AI_ANALYSIS_SUBPAGE_PARAM of
        None \<Rightarrow> ''issues''
      | Some s \<Rightarrow> if s = [] then ''issues'' else s)"

text \<open>
  \<^verbatim>\<open>if (value === 'issues') { params.delete(AI_ANALYSIS_SUBPAGE_PARAM); }
  else { params.set(AI_ANALYSIS_SUBPAGE_PARAM, value); }
  return params;\<close>
\<close>

definition handleTabChange :: "string \<Rightarrow> URLSearchParams \<Rightarrow> URLSearchParams" where
  "handleTabChange v params =
     (if v = ''issues'' then params_delete params AI_ANALYSIS_SUBPAGE_PARAM
      else params_set params AI_ANALYSIS_SUBPAGE_PARAM v)"

section \<open>The investigation store: hypothesis updates, issue creation, previews\<close>

text \<open>
  The sources hold the pages that read the store and the guides that call its
  commands; the repository operations themselves are not among them.  They are
  written here after sections 3, 4.1, 4.3, 4.5, 6 and 7 of the specification, each
  mutation as a function from the current document and the input to the new
  document, written back whole.
\<close>

text \<open>Modelled from the spec: the error taxonomy of section 7 (the store's code is missing).\<close>

datatype RepositoryError =
    NotFound
  | ValidationError
  | InvalidTransition
  | ContainerUnavailable
  | SerializationError

text \<open>
  Modelled from the spec: the stored Hypothesis document of section 3, with the
  fields that \<open>update_hypothesis\<close> reads or writes (the stored document type is
  missing from the sources).
\<close>

record HypothesisDocument =
  hd_id :: string
  hd_statement :: string
  hd_testing_plan :: string
  hd_status :: HypothesisStatus
  hd_evidence :: "Evidence list"

text \<open>
  Modelled from the spec: the documents of the analysis containers, addressed by
  container id and hypothesis id (ArtifactStore \<open>get\<close>/\<open>put\<close> of section 4.1; the
  storage code is missing).
\<close>

type_synonym HypothesisStore = "string \<times> string \<Rightarrow> HypothesisDocument option"

text \<open>
  Modelled from the spec: \<open>update_hypothesis(container_id, id, status?, new_evidence[])\<close>
  of section 4.3, whose implementation is missing: it appends the new evidence
  entries to the prior ones; when a status is given it becomes the document's
  status; a status of VALIDATED or REJECTED requires the evidence list (existing
  and newly appended) to be non-empty and fails with \<open>InvalidTransition\<close> otherwise;
  an unknown container or id is \<open>NotFound\<close>.  Trace linking is taken to follow the
  auto-link policy that section 4.4 allows, so no evidence entry is refused.
\<close>

definition update_hypothesis ::
  "HypothesisStore \<Rightarrow> string \<Rightarrow> string \<Rightarrow> HypothesisStatus option \<Rightarrow> Evidence list
     \<Rightarrow> RepositoryError + HypothesisStore" where
  "update_hypothesis store container_id hid new_status new_evidence =
     (case store (container_id, hid) of
        None \<Rightarrow> Inl NotFound
      | Some doc \<Rightarrow>
          (let evidence = hd_evidence doc @ new_evidence in
           case new_status of
             None \<Rightarrow> Inr (store((container_id, hid) \<mapsto> doc\<lparr>hd_evidence := evidence\<rparr>))
           | Some s \<Rightarrow>
               if (s = VALIDATED \<or> s = REJECTED) \<and> evidence = [] then Inl InvalidTransition
               else Inr (store((container_id, hid) \<mapsto>
                           doc\<lparr>hd_status := s, hd_evidence := evidence\<rparr>))))"

text \<open>
  Modelled from the spec: the stored Issue document of section 3, with the fields
  that \<open>create_issue\<close> receives or initialises (the stored document type is
  missing from the sources).
\<close>

record IssueDocument =
  id_id :: string
  id_hypothesis_id :: "string option"
  id_title :: string
  id_description :: string
  id_severity :: Severity
  id_status :: IssueStatus
  id_evidence :: "IssueEvidence list"

text \<open>
  Modelled from the spec: the issue documents of the umbrella containers,
  addressed by experiment id and issue id (section 3: issues live in the umbrella
  container of their experiment; the storage code is missing).
\<close>

type_synonym IssueStore = "string \<times> string \<Rightarrow> IssueDocument option"

text \<open>
  Modelled from the spec: \<open>create_issue(experiment_id, title, description, severity,
  evidence[], hypothesis_id?)\<close> of section 4.3, whose implementation is missing: it
  requires \<open>len(evidence) >= 1\<close> and fails with \<open>ValidationError\<close> (missing required
  evidence, section 7) before anything is stored; otherwise it writes the document
  into the umbrella container with status OPEN.  \<open>new_id\<close> is the identifier
  allocated for the issue.
\<close>

definition create_issue ::
  "IssueStore \<Rightarrow> string \<Rightarrow> string \<Rightarrow> string \<Rightarrow> string \<Rightarrow> Severity \<Rightarrow> IssueEvidence list
     \<Rightarrow> string option \<Rightarrow> RepositoryError + (string \<times> IssueStore)" where
  "create_issue store new_id experiment_id ttl descr sev evidence hyp_id =
     (if length evidence < 1 then Inl ValidationError
      else Inr (new_id,
                store((experiment_id, new_id) \<mapsto>
                  \<lparr> id_id = new_id, id_hypothesis_id = hyp_id, id_title = ttl,
                    id_description = descr, id_severity = sev, id_status = OPEN,
                    id_evidence = evidence \<rparr>)))"

text \<open>Modelled from the spec: \<open>get_issue\<close>, the read of one stored issue document.\<close>

definition get_issue :: "IssueStore \<Rightarrow> string \<Rightarrow> string \<Rightarrow> RepositoryError + IssueDocument" where
  "get_issue store experiment_id iid =
     (case store (experiment_id, iid) of None \<Rightarrow> Inl NotFound | Some doc \<Rightarrow> Inr doc)"

text \<open>Modelled from the spec: \<open>get_hypothesis\<close>, the read of one stored hypothesis document.\<close>

definition get_hypothesis ::
  "HypothesisStore \<Rightarrow> string \<Rightarrow> string \<Rightarrow> RepositoryError + HypothesisDocument" where
  "get_hypothesis store container_id hid =
     (case store (container_id, hid) of None \<Rightarrow> Inl NotFound | Some doc \<Rightarrow> Inr doc)"

text \<open>
  Modelled from the spec: the flattening step of \<open>preview\<close> (section 4.5), whose
  implementation is missing: the evidence entries of the given entities, one
  entry per trace id, in first-seen order.  An entry is a trace id with its
  rationale.
\<close>

fun first_seen :: "(string \<times> string) list \<Rightarrow> (string \<times> string) list" where
  "first_seen [] = []"
| "first_seen (e # es) = e # first_seen (filter (\<lambda>e'. fst e' \<noteq> fst e) es)"

text \<open>
  Modelled from the spec: the traces a \<open>preview\<close> resolves before it truncates
  (section 4.5; the implementation is missing).  \<open>summary\<close> is the external
  trace store's resolution of a trace id and its rationale into a
  \<open>TracePreview\<close>; \<open>entities\<close> holds the evidence of each entity.
\<close>

definition resolved_traces ::
  "(string \<Rightarrow> string \<Rightarrow> TracePreview) \<Rightarrow> (string \<times> string) list list \<Rightarrow> TracePreview list" where
  "resolved_traces summary entities =
     map (\<lambda>e. summary (fst e) (snd e)) (first_seen (concat entities))"

text \<open>
  Modelled from the spec: \<open>preview(entities, max_traces?) -> {traces, total_count,
  returned_count}\<close> of section 4.5, whose implementation is missing: it truncates
  the resolved traces to \<open>max_traces\<close> if supplied (a limit below 1 leaves none)
  and reports the count before and the count after the truncation.
\<close>

definition preview ::
  "(string \<Rightarrow> string \<Rightarrow> TracePreview) \<Rightarrow> (string \<times> string) list list \<Rightarrow> int option
     \<Rightarrow> PreviewTracesResponse" where
  "preview summary entities max_traces =
     (let resolved = resolved_traces summary entities;
          kept = (case max_traces of None \<Rightarrow> resolved | Some n \<Rightarrow> take (nat n) resolved)
      in \<lparr> traces = kept, total_count = int (length resolved),
           returned_count = int (length kept) \<rparr>)"

text \<open>
  Modelled from the spec: how the preview endpoints of section 6
  (\<open>PreviewIssues(experiment_id, max_traces?)\<close>,
  \<open>PreviewHypotheses(insights_run_id, max_traces?)\<close>; the handlers are missing)
  read the optional limit of a request body: the number under \<open>max_traces\<close>,
  absent when the body has no such property.
\<close>

definition request_max_traces :: "(string \<times> jsval) list \<Rightarrow> int option" where
  "request_max_traces body =
     (case map_of body ''max_traces'' of Some (Num n) \<Rightarrow> Some n | _ \<Rightarrow> None)"

text \<open>
  Modelled from the spec: a preview endpoint answering a request body over the
  entities that the identifier in the body selects (the handlers are missing).
\<close>

definition preview_endpoint ::
  "(string \<Rightarrow> string \<Rightarrow> TracePreview) \<Rightarrow> (string \<times> string) list list \<Rightarrow> (string \<times> jsval) list
     \<Rightarrow> PreviewTracesResponse" where
  "preview_endpoint summary entities body =
     preview summary entities (request_max_traces body)"

section \<open>Example data\<close>

text \<open>An issue with the given id, trace count, severity, status and creation time.\<close>

definition example_issue :: "string \<Rightarrow> int option \<Rightarrow> Severity \<Rightarrow> IssueStatus \<Rightarrow> int \<Rightarrow> Issue" where
  "example_issue i n sev st t =
     \<lparr> issue_id = i, source_run_id = None, i_hypothesis_id = None, title = i,
       description = [], severity = sev, status = st, i_evidence = None,
       trace_count = n, assessments = None, resolution = None,
       created_at = t, updated_at = t, i_metadata = None \<rparr>"

text \<open>A hypothesis as a list response carries it, with the given count and evidence.\<close>

definition example_hypothesis :: "int option \<Rightarrow> Evidence list option \<Rightarrow> Hypothesis" where
  "example_hypothesis n es =
     \<lparr> hypothesis_id = ''h1'', statement = ''s'', testing_plan = None, h_status = TESTING,
       h_evidence = es, evidence_count = n, h_trace_count = None, supports_count = None,
       refutes_count = None, h_metrics = None, h_created_at = 0, h_updated_at = 0,
       h_metadata = None \<rparr>"

text \<open>A trace summary with fixed measurements, for a trace id and its rationale.\<close>

definition example_summary :: "string \<Rightarrow> string \<Rightarrow> TracePreview" where
  "example_summary tid r =
     \<lparr> tp_trace_id = tid, request_id = tid, tp_status = ''OK'', execution_time_ms = 10,
       timestamp = 0, evidence_rationale = Some r \<rparr>"

text \<open>The order the specification asks of the default listing: trace count
  descending, and creation time descending among equal trace counts.\<close>

definition trace_count_then_created_at_desc :: "Issue list \<Rightarrow> bool" where
  "trace_count_then_created_at_desc xs =
     sorted_wrt (\<lambda>a b. trace_count_or_0 b < trace_count_or_0 a \<or>
                       (trace_count_or_0 a = trace_count_or_0 b \<and> created_at b \<le> created_at a)) xs"

section \<open>Properties\<close>

subsection \<open>The evidence item count\<close>

text \<open>
  C4: the evidence list of a listed hypothesis is optional, and the count that
  HypothesisPanel displays is \<open>evidence_count\<close> when that field is present and
  truthy (not zero), otherwise the length of the evidence list when the list is
  present, otherwise 0.
\<close>

theorem evidence_items_fallback:
  "HypothesisPanel_evidence_items h =
     Num (case evidence_count h of
            Some n \<Rightarrow>
              if n \<noteq> 0 then n
              else (case h_evidence h of Some es \<Rightarrow> int (length es) | None \<Rightarrow> 0)
          | None \<Rightarrow> (case h_evidence h of Some es \<Rightarrow> int (length es) | None \<Rightarrow> 0))"
  by (simp add: HypothesisPanel_evidence_items_def evidence_length_def js_or_def
      split: option.splits)

theorem evidence_items_fallback_witness:
  "HypothesisPanel_evidence_items (example_hypothesis (Some 3) None) = Num 3 \<and>
   HypothesisPanel_evidence_items
     (example_hypothesis None
        (Some [\<lparr>trace_id = ''tr-1'', rationale = ''r'', supports = True\<rparr>,
               \<lparr>trace_id = ''tr-2'', rationale = ''q'', supports = False\<rparr>])) = Num 2 \<and>
   HypothesisPanel_evidence_items (example_hypothesis (Some 0) None) = Num 0 \<and>
   HypothesisPanel_evidence_items (example_hypothesis None None) = Num 0"
  using evidence_items_fallback [of "example_hypothesis (Some 3) None"]
    evidence_items_fallback [of "example_hypothesis None
        (Some [\<lparr>trace_id = ''tr-1'', rationale = ''r'', supports = True\<rparr>,
               \<lparr>trace_id = ''tr-2'', rationale = ''q'', supports = False\<rparr>])"]
    evidence_items_fallback [of "example_hypothesis (Some 0) None"]
    evidence_items_fallback [of "example_hypothesis None None"]
  by (simp add: example_hypothesis_def)

subsection \<open>The polling interval of the hypothesis list\<close>

text \<open>
  C5: \<open>useHypothesesList\<close> polls every 2000 ms whenever \<open>options.isActiveRun\<close> is
  true, whatever interval the caller passes, and every 30000 ms by default when it
  is not (no options, or options without \<open>refetchInterval\<close>); HypothesisPanel, which
  passes only \<open>isActiveRun\<close>, polls an ACTIVE run every 2 seconds and any other run
  every 30 seconds.
\<close>

theorem hypotheses_polling_interval:
  "(isActiveRun opts = Some True \<longrightarrow>
      useHypothesesList_refetchInterval (Some opts) = Ms 2000) \<and>
   (isActiveRun opts \<noteq> Some True \<and> refetchInterval opts = None \<longrightarrow>
      useHypothesesList_refetchInterval (Some opts) = Ms 30000) \<and>
   useHypothesesList_refetchInterval None = Ms 30000 \<and>
   HypothesisPanel_refetchInterval st = (if st = ACTIVE then Ms 2000 else Ms 30000)"
  by (cases "isActiveRun opts")
     (auto simp: useHypothesesList_refetchInterval_def opt_isActiveRun_def
        opt_refetchInterval_def HypothesisPanel_refetchInterval_def HypothesisPanel_options_def)

theorem hypotheses_polling_interval_witness:
  "isActiveRun \<lparr>enabled = None, refetchInterval = Some (Ms 500), isActiveRun = Some True\<rparr> = Some True \<and>
   useHypothesesList_refetchInterval
     (Some \<lparr>enabled = None, refetchInterval = Some (Ms 500), isActiveRun = Some True\<rparr>) = Ms 2000 \<and>
   isActiveRun \<lparr>enabled = Some True, refetchInterval = None, isActiveRun = Some False\<rparr> \<noteq> Some True \<and>
   refetchInterval \<lparr>enabled = Some True, refetchInterval = None, isActiveRun = Some False\<rparr> = None \<and>
   useHypothesesList_refetchInterval
     (Some \<lparr>enabled = Some True, refetchInterval = None, isActiveRun = Some False\<rparr>) = Ms 30000 \<and>
   HypothesisPanel_refetchInterval ACTIVE = Ms 2000 \<and>
   HypothesisPanel_refetchInterval COMPLETED = Ms 30000"
  using hypotheses_polling_interval
          [of "\<lparr>enabled = None, refetchInterval = Some (Ms 500), isActiveRun = Some True\<rparr>" ACTIVE]
        hypotheses_polling_interval
          [of "\<lparr>enabled = Some True, refetchInterval = None, isActiveRun = Some False\<rparr>" COMPLETED]
  by simp

subsection \<open>The default order of the issue list\<close>

lemma insert_by_insort_key:
  assumes "\<And>x y. (cmp x y \<le> 0) = (f x \<le> f y)"
  shows "insert_by cmp x ys = insort_key f x ys"
  by (induction ys) (simp_all add: assms)

lemma array_sort_sort_key:
  assumes "\<And>x y. (cmp x y \<le> 0) = (f x \<le> f y)"
  shows "array_sort cmp xs = sort_key f xs"
  unfolding array_sort_def sort_key_def
  by (induction xs) (simp_all add: insert_by_insort_key[OF assms])

lemma default_sortedIssues_sort_key:
  "default_sortedIssues (Some xs) = sort_key (\<lambda>a. - trace_count_or_0 a) xs"
  unfolding default_sortedIssues_def sortedIssues_def
  by (simp add: array_sort_sort_key[where f = "\<lambda>a. - trace_count_or_0 a"] comparator_def)

lemma trace_count_or_0_cases:
  "trace_count_or_0 a = (case trace_count a of None \<Rightarrow> 0 | Some n \<Rightarrow> n)"
  by (simp add: trace_count_or_0_def js_or_def split: option.splits)

lemma default_sorted_desc:
  "sorted_wrt (\<lambda>a b. trace_count_or_0 b \<le> trace_count_or_0 a) (default_sortedIssues (Some xs))"
proof -
  have "sorted (map (\<lambda>a. - trace_count_or_0 a) (sort_key (\<lambda>a. - trace_count_or_0 a) xs))"
    by (rule sorted_sort_key)
  then show ?thesis
    by (simp add: default_sortedIssues_sort_key sorted_map)
qed

lemma default_sorted_stable:
  "filter (\<lambda>a. trace_count_or_0 a = k) (default_sortedIssues (Some xs)) =
   filter (\<lambda>a. trace_count_or_0 a = k) xs"
  using sort_key_stable[of "\<lambda>a. - trace_count_or_0 a" "- k" xs]
  by (simp add: default_sortedIssues_sort_key)

lemma default_sorted_example:
  assumes "map trace_count_or_0 xs = [3, 1, 5]"
  shows "map trace_count_or_0 (default_sortedIssues (Some xs)) = [5, 3, 1]"
proof -
  from assms obtain a b c where xs: "xs = [a, b, c]"
    and v: "trace_count_or_0 a = 3" "trace_count_or_0 b = 1" "trace_count_or_0 c = 5"
    by (auto simp: map_eq_Cons_conv)
  show ?thesis
    by (simp add: default_sortedIssues_sort_key xs v)
qed

lemma default_sorted_keeps_contract:
  assumes "trace_count_then_created_at_desc xs"
  shows "default_sortedIssues (Some xs) = xs"
proof -
  from assms have "sorted_wrt (\<lambda>a b. - trace_count_or_0 a \<le> - trace_count_or_0 b) xs"
    unfolding trace_count_then_created_at_desc_def by (rule sorted_wrt_mono_rel[rotated]) auto
  then have "sorted (map (\<lambda>a. - trace_count_or_0 a) xs)"
    by (simp add: sorted_map)
  then show ?thesis
    by (simp add: default_sortedIssues_sort_key sort_key_id_if_sorted)
qed

text \<open>
  C1 (as amended): under the default sort (field \<open>trace_count\<close>, order \<open>desc\<close>) the
  issues shown are a rearrangement of the issues received, ordered by trace count
  descending with a missing trace count read as 0; issues with equal trace counts
  keep the order in which they were received (the comparator never reads
  \<open>created_at\<close>), so a list that arrives ordered by trace count and then creation
  time, both descending, is shown unchanged; trace counts \<open>[3,1,5]\<close> come out as
  \<open>[5,3,1]\<close>; without a response the list is empty.
\<close>

theorem default_sort_trace_count_desc:
  "sorted_wrt (\<lambda>a b. trace_count_or_0 b \<le> trace_count_or_0 a) (default_sortedIssues (Some xs)) \<and>
   mset (default_sortedIssues (Some xs)) = mset xs \<and>
   filter (\<lambda>a. trace_count_or_0 a = k) (default_sortedIssues (Some xs)) =
     filter (\<lambda>a. trace_count_or_0 a = k) xs \<and>
   (map trace_count_or_0 xs = [3, 1, 5] \<longrightarrow>
      map trace_count_or_0 (default_sortedIssues (Some xs)) = [5, 3, 1]) \<and>
   (trace_count_then_created_at_desc xs \<longrightarrow> default_sortedIssues (Some xs) = xs) \<and>
   trace_count_or_0 a = (case trace_count a of None \<Rightarrow> 0 | Some n \<Rightarrow> n) \<and>
   default_sortedIssues None = []"
proof -
  have "mset (default_sortedIssues (Some xs)) = mset xs"
    by (simp add: default_sortedIssues_sort_key)
  moreover have "default_sortedIssues None = []"
    by (simp add: default_sortedIssues_def sortedIssues_def)
  ultimately show ?thesis
    using default_sorted_desc [of xs] default_sorted_stable [of k xs]
      default_sorted_example [of xs] default_sorted_keeps_contract [of xs]
      trace_count_or_0_cases [of a]
    by blast
qed

theorem default_sort_trace_count_desc_witness:
  "map trace_count_or_0
     [example_issue ''a'' (Some 3) LOW OPEN 10, example_issue ''b'' (Some 1) HIGH OPEN 20,
      example_issue ''c'' (Some 5) LOW OPEN 30] = [3, 1, 5] \<and>
   default_sortedIssues
     (Some [example_issue ''a'' (Some 3) LOW OPEN 10, example_issue ''b'' (Some 1) HIGH OPEN 20,
            example_issue ''c'' (Some 5) LOW OPEN 30]) =
     [example_issue ''c'' (Some 5) LOW OPEN 30, example_issue ''a'' (Some 3) LOW OPEN 10,
      example_issue ''b'' (Some 1) HIGH OPEN 20] \<and>
   map trace_count_or_0
     (default_sortedIssues
       (Some [example_issue ''a'' (Some 3) LOW OPEN 10, example_issue ''b'' (Some 1) HIGH OPEN 20,
              example_issue ''c'' (Some 5) LOW OPEN 30])) = [5, 3, 1] \<and>
   trace_count_then_created_at_desc
     [example_issue ''d'' (Some 2) LOW OPEN 9, example_issue ''e'' None LOW OPEN 8,
      example_issue ''f'' (Some 0) LOW OPEN 7] \<and>
   default_sortedIssues
     (Some [example_issue ''d'' (Some 2) LOW OPEN 9, example_issue ''e'' None LOW OPEN 8,
            example_issue ''f'' (Some 0) LOW OPEN 7]) =
     [example_issue ''d'' (Some 2) LOW OPEN 9, example_issue ''e'' None LOW OPEN 8,
      example_issue ''f'' (Some 0) LOW OPEN 7]"
  using default_sort_trace_count_desc
     [of "[example_issue ''a'' (Some 3) LOW OPEN 10, example_issue ''b'' (Some 1) HIGH OPEN 20,
           example_issue ''c'' (Some 5) LOW OPEN 30]" 3 "example_issue ''a'' (Some 3) LOW OPEN 10"]
    default_sort_trace_count_desc
     [of "[example_issue ''d'' (Some 2) LOW OPEN 9, example_issue ''e'' None LOW OPEN 8,
      example_issue ''f'' (Some 0) LOW OPEN 7]" 0 "example_issue ''e'' None LOW OPEN 8"]
  by (simp add: default_sortedIssues_def sortedIssues_def array_sort_def comparator_def
      trace_count_or_0_def js_or_def example_issue_def trace_count_then_created_at_desc_def)

theorem default_sort_tie_counterexample:
  "default_sortedIssues
     (Some [example_issue ''a'' (Some 2) LOW OPEN 1, example_issue ''b'' (Some 2) LOW OPEN 2]) =
     [example_issue ''a'' (Some 2) LOW OPEN 1, example_issue ''b'' (Some 2) LOW OPEN 2] \<and>
   \<not> trace_count_then_created_at_desc
     (default_sortedIssues
       (Some [example_issue ''a'' (Some 2) LOW OPEN 1, example_issue ''b'' (Some 2) LOW OPEN 2]))"
  by (simp add: default_sortedIssues_def sortedIssues_def array_sort_def comparator_def
      trace_count_or_0_def js_or_def example_issue_def trace_count_then_created_at_desc_def)

subsection \<open>Sorting by severity; ascending against descending\<close>

lemma severity_sort_key:
  "sortedIssues (Some xs) Field_severity Desc = sort_key (\<lambda>a. - severityOrder (severity a)) xs"
  unfolding sortedIssues_def
  by (simp add: array_sort_sort_key[where f = "\<lambda>a. - severityOrder (severity a)"] comparator_def)

lemma severity_sorted_precedes:
  assumes "i < length (sortedIssues (Some xs) Field_severity Desc)"
    and "j < length (sortedIssues (Some xs) Field_severity Desc)"
    and "severityOrder (severity (sortedIssues (Some xs) Field_severity Desc ! j))
           < severityOrder (severity (sortedIssues (Some xs) Field_severity Desc ! i))"
  shows "i < j"
proof (rule ccontr)
  let ?f = "\<lambda>a. - severityOrder (severity a)"
  let ?r = "sort_key ?f xs"
  assume "\<not> i < j"
  then have "j \<le> i" by simp
  have "sorted (map ?f ?r)" by (rule sorted_sort_key)
  moreover have "i < length (map ?f ?r)" using assms(1) by (simp add: severity_sort_key)
  ultimately have "map ?f ?r ! j \<le> map ?f ?r ! i"
    using \<open>j \<le> i\<close> by (simp only: sorted_nth_mono)
  then show False
    using assms by (simp add: severity_sort_key)
qed

text \<open>
  C8: the severity comparator ranks CRITICAL, HIGH, MEDIUM, LOW as 4, 3, 2, 1; in
  the list sorted by severity descending, an issue of higher rank stands before
  every issue of lower rank (every CRITICAL before every HIGH, every HIGH before
  every MEDIUM, every MEDIUM before every LOW), and the list is a rearrangement of
  the input; for every sort field the ascending comparator is the negation of the
  descending one.
\<close>

theorem severity_sort_and_order_negation:
  "severityOrder CRITICAL = 4 \<and> severityOrder HIGH = 3 \<and>
   severityOrder MEDIUM = 2 \<and> severityOrder LOW = 1 \<and>
   (i < length (sortedIssues (Some xs) Field_severity Desc) \<and>
    j < length (sortedIssues (Some xs) Field_severity Desc) \<and>
    severityOrder (severity (sortedIssues (Some xs) Field_severity Desc ! j))
      < severityOrder (severity (sortedIssues (Some xs) Field_severity Desc ! i))
    \<longrightarrow> i < j) \<and>
   mset (sortedIssues (Some xs) Field_severity Desc) = mset xs \<and>
   comparator sortField Asc a b = - comparator sortField Desc a b"
proof -
  have "mset (sortedIssues (Some xs) Field_severity Desc) = mset xs"
    by (simp add: severity_sort_key)
  moreover have "comparator sortField Asc a b = - comparator sortField Desc a b"
    by (simp add: comparator_def)
  ultimately show ?thesis
    using severity_sorted_precedes [of i xs j] by simp
qed

theorem severity_sort_and_order_negation_witness:
  "sortedIssues
     (Some [example_issue ''l'' None LOW OPEN 1, example_issue ''c'' None CRITICAL RESOLVED 2,
            example_issue ''m'' None MEDIUM OPEN 3, example_issue ''h'' None HIGH OPEN 4])
     Field_severity Desc =
     [example_issue ''c'' None CRITICAL RESOLVED 2, example_issue ''h'' None HIGH OPEN 4,
      example_issue ''m'' None MEDIUM OPEN 3, example_issue ''l'' None LOW OPEN 1] \<and>
   severityOrder (severity (sortedIssues
     (Some [example_issue ''l'' None LOW OPEN 1, example_issue ''c'' None CRITICAL RESOLVED 2,
            example_issue ''m'' None MEDIUM OPEN 3, example_issue ''h'' None HIGH OPEN 4])
     Field_severity Desc ! 1))
   < severityOrder (severity (sortedIssues
     (Some [example_issue ''l'' None LOW OPEN 1, example_issue ''c'' None CRITICAL RESOLVED 2,
            example_issue ''m'' None MEDIUM OPEN 3, example_issue ''h'' None HIGH OPEN 4])
     Field_severity Desc ! 0)) \<and>
   (0::nat) < 1 \<and>
   comparator Field_status Asc (example_issue ''l'' None LOW OPEN 1)
     (example_issue ''c'' None CRITICAL RESOLVED 2) = - 1 \<and>
   comparator Field_status Desc (example_issue ''l'' None LOW OPEN 1)
     (example_issue ''c'' None CRITICAL RESOLVED 2) = 1"
  using severity_sort_and_order_negation
    [of 0 "[example_issue ''l'' None LOW OPEN 1, example_issue ''c'' None CRITICAL RESOLVED 2,
            example_issue ''m'' None MEDIUM OPEN 3, example_issue ''h'' None HIGH OPEN 4]" 1
        Field_status "example_issue ''l'' None LOW OPEN 1"
        "example_issue ''c'' None CRITICAL RESOLVED 2"]
  by (simp add: sortedIssues_def array_sort_def comparator_def example_issue_def)

subsection \<open>The preview requests and their responses\<close>

lemma max_traces_spread_cases:
  "max_traces_spread maxTraces =
     (case maxTraces of None \<Rightarrow> [] | Some n \<Rightarrow> if n = 0 then [] else [(''max_traces'', Num n)])"
  by (simp add: max_traces_spread_def js_and_def split: option.splits)

lemma request_max_traces_issues:
  "request_max_traces (useIssuesPreview_request experimentId maxTraces) =
     (case maxTraces of None \<Rightarrow> None | Some n \<Rightarrow> if n = 0 then None else Some n)"
  by (simp add: request_max_traces_def useIssuesPreview_request_def max_traces_spread_cases
      split: option.splits)

lemma request_max_traces_hypotheses:
  "request_max_traces (useHypothesesPreview_request runId maxTraces) =
     (case maxTraces of None \<Rightarrow> None | Some n \<Rightarrow> if n = 0 then None else Some n)"
  by (simp add: request_max_traces_def useHypothesesPreview_request_def max_traces_spread_cases
      split: option.splits)

lemma preview_counts:
  "total_count (preview summary entities limit) = int (length (resolved_traces summary entities)) \<and>
   returned_count (preview summary entities limit) = int (length (traces (preview summary entities limit))) \<and>
   returned_count (preview summary entities limit) \<le> total_count (preview summary entities limit)"
  by (simp add: preview_def Let_def split: option.splits)

lemma preview_traces:
  "traces (preview summary entities limit) =
     (case limit of None \<Rightarrow> resolved_traces summary entities
      | Some n \<Rightarrow> take (nat n) (resolved_traces summary entities))"
  by (simp add: preview_def Let_def split: option.splits)

text \<open>
  C6 (as amended): the optional limit, when the caller supplies a non-zero
  \<open>maxTraces\<close>, is carried in the request as \<open>max_traces\<close>, so the results are
  truncated to it; a \<open>maxTraces\<close> of 0 is left out of the request like an absent
  one: the body of \<open>useIssuesPreview\<close> and of \<open>useHypothesesPreview\<close> then holds
  only the identifier, and the results are not truncated.  The response always
  reports the count before truncation as \<open>total_count\<close> and the count after it, the
  number of \<open>traces\<close> returned, as \<open>returned_count\<close>.
\<close>

theorem preview_request_max_traces:
  "useIssuesPreview_request experimentId maxTraces =
     (''experiment_id'', Str experimentId) #
       (case maxTraces of None \<Rightarrow> []
        | Some n \<Rightarrow> if n = 0 then [] else [(''max_traces'', Num n)]) \<and>
   useHypothesesPreview_request runId maxTraces =
     (''insights_run_id'', Str runId) #
       (case maxTraces of None \<Rightarrow> []
        | Some n \<Rightarrow> if n = 0 then [] else [(''max_traces'', Num n)]) \<and>
   traces (preview_endpoint summary entities (useIssuesPreview_request experimentId maxTraces)) =
     (case maxTraces of None \<Rightarrow> resolved_traces summary entities
      | Some n \<Rightarrow> if n = 0 then resolved_traces summary entities
                  else take (nat n) (resolved_traces summary entities)) \<and>
   traces (preview_endpoint summary entities (useHypothesesPreview_request runId maxTraces)) =
     (case maxTraces of None \<Rightarrow> resolved_traces summary entities
      | Some n \<Rightarrow> if n = 0 then resolved_traces summary entities
                  else take (nat n) (resolved_traces summary entities)) \<and>
   total_count (preview_endpoint summary entities body) =
     int (length (resolved_traces summary entities)) \<and>
   returned_count (preview_endpoint summary entities body) =
     int (length (traces (preview_endpoint summary entities body))) \<and>
   returned_count (preview_endpoint summary entities body) \<le>
     total_count (preview_endpoint summary entities body)"
proof -
  have "traces (preview_endpoint summary entities (useIssuesPreview_request experimentId maxTraces)) =
     (case maxTraces of None \<Rightarrow> resolved_traces summary entities
      | Some n \<Rightarrow> if n = 0 then resolved_traces summary entities
                  else take (nat n) (resolved_traces summary entities))"
    by (simp add: preview_endpoint_def preview_traces request_max_traces_issues
        split: option.splits)
  moreover have "traces (preview_endpoint summary entities (useHypothesesPreview_request runId maxTraces)) =
     (case maxTraces of None \<Rightarrow> resolved_traces summary entities
      | Some n \<Rightarrow> if n = 0 then resolved_traces summary entities
                  else take (nat n) (resolved_traces summary entities))"
    by (simp add: preview_endpoint_def preview_traces request_max_traces_hypotheses
        split: option.splits)
  moreover have "useIssuesPreview_request experimentId maxTraces =
     (''experiment_id'', Str experimentId) #
       (case maxTraces of None \<Rightarrow> []
        | Some n \<Rightarrow> if n = 0 then [] else [(''max_traces'', Num n)])"
    by (simp add: useIssuesPreview_request_def max_traces_spread_cases)
  moreover have "useHypothesesPreview_request runId maxTraces =
     (''insights_run_id'', Str runId) #
       (case maxTraces of None \<Rightarrow> []
        | Some n \<Rightarrow> if n = 0 then [] else [(''max_traces'', Num n)])"
    by (simp add: useHypothesesPreview_request_def max_traces_spread_cases)
  ultimately show ?thesis
    using preview_counts [of summary entities "request_max_traces body"]
    by (simp only: preview_endpoint_def) simp
qed

theorem preview_request_max_traces_witness:
  "useIssuesPreview_request ''exp-1'' (Some 2) =
     [(''experiment_id'', Str ''exp-1''), (''max_traces'', Num 2)] \<and>
   useHypothesesPreview_request ''run-1'' None = [(''insights_run_id'', Str ''run-1'')] \<and>
   resolved_traces example_summary
     [[(''tr-1'', ''a''), (''tr-2'', ''b'')], [(''tr-2'', ''c''), (''tr-3'', ''d''), (''tr-1'', ''e'')],
      [(''tr-4'', ''f''), (''tr-5'', ''g'')]] =
     [example_summary ''tr-1'' ''a'', example_summary ''tr-2'' ''b'', example_summary ''tr-3'' ''d'',
      example_summary ''tr-4'' ''f'', example_summary ''tr-5'' ''g''] \<and>
   preview_endpoint example_summary
     [[(''tr-1'', ''a''), (''tr-2'', ''b'')], [(''tr-2'', ''c''), (''tr-3'', ''d''), (''tr-1'', ''e'')],
      [(''tr-4'', ''f''), (''tr-5'', ''g'')]]
     (useIssuesPreview_request ''exp-1'' (Some 2)) =
     \<lparr> traces = [example_summary ''tr-1'' ''a'', example_summary ''tr-2'' ''b''],
       total_count = 5, returned_count = 2 \<rparr> \<and>
   returned_count (preview_endpoint example_summary
     [[(''tr-1'', ''a''), (''tr-2'', ''b'')], [(''tr-2'', ''c''), (''tr-3'', ''d''), (''tr-1'', ''e'')],
      [(''tr-4'', ''f''), (''tr-5'', ''g'')]]
     (useHypothesesPreview_request ''run-1'' None)) = 5"
  using preview_request_max_traces
    [of "''exp-1''" "Some 2" "''run-1''" example_summary
        "[[(''tr-1'', ''a''), (''tr-2'', ''b'')], [(''tr-2'', ''c''), (''tr-3'', ''d''), (''tr-1'', ''e'')],
          [(''tr-4'', ''f''), (''tr-5'', ''g'')]]" "useIssuesPreview_request ''exp-1'' (Some 2)"]
    preview_request_max_traces
    [of "''exp-1''" None "''run-1''" example_summary
        "[[(''tr-1'', ''a''), (''tr-2'', ''b'')], [(''tr-2'', ''c''), (''tr-3'', ''d''), (''tr-1'', ''e'')],
          [(''tr-4'', ''f''), (''tr-5'', ''g'')]]" "useHypothesesPreview_request ''run-1'' None"]
  by (simp add: resolved_traces_def preview_endpoint_def preview_def request_max_traces_def
      useIssuesPreview_request_def useHypothesesPreview_request_def max_traces_spread_def
      js_and_def)

theorem preview_request_zero_counterexample:
  "useIssuesPreview_request ''exp-1'' (Some 0) = [(''experiment_id'', Str ''exp-1'')] \<and>
   map_of (useIssuesPreview_request ''exp-1'' (Some 0)) ''max_traces'' = None \<and>
   useHypothesesPreview_request ''run-1'' (Some 0) = [(''insights_run_id'', Str ''run-1'')] \<and>
   map_of (useHypothesesPreview_request ''run-1'' (Some 0)) ''max_traces'' = None"
  by (simp add: useIssuesPreview_request_def useHypothesesPreview_request_def
      max_traces_spread_def js_and_def)

subsection \<open>Non-OK responses of the request helper\<close>

lemma postAgenticApi_not_ok_throws:
  "\<not> ok response \<Longrightarrow> \<exists>e. postAgenticApi (Responded response) = Inl e"
  by (simp add: postAgenticApi_def Let_def split: sum.splits)

lemma postAgenticApi_not_ok_message:
  assumes "\<not> ok response" and "json response \<noteq> Some Null" and "json response \<noteq> Some Undefined"
  shows "postAgenticApi (Responded response) =
     Inl (Error (case json response of
                   Some (Obj props) \<Rightarrow>
                     (case map_of props ''message'' of
                        Some m \<Rightarrow> if truthy m then m
                                  else Str (''API request failed: '' @ statusText response)
                      | None \<Rightarrow> Str (''API request failed: '' @ statusText response))
                 | _ \<Rightarrow> Str (''API request failed: '' @ statusText response)))"
proof (cases "json response")
  case None
  with assms show ?thesis by (simp add: postAgenticApi_def js_or_def)
next
  case (Some v)
  with assms show ?thesis
    by (cases v) (simp_all add: postAgenticApi_def js_or_def split: option.splits)
qed

text \<open>
  C7: a request that completes with a non-OK response must make the helper throw
  an error that carries the server's message or the fallback message.  At a non-OK
  response whose body is the JSON value \<open>null\<close> the helper throws the TypeError of
  reading \<open>message\<close> of \<open>null\<close> instead.
\<close>

theorem postAgenticApi_null_error_body:
  "postAgenticApi
     (Responded \<lparr> ok = False, statusText = ''Internal Server Error'', json = Some Null \<rparr>)
   = Inl TypeError_property_of_null"
  by (simp add: postAgenticApi_def)

subsection \<open>formatValue\<close>









subsection \<open>The subpage round trip\<close>

lemma params_get_delete: "params_get (params_delete params name) name = None"
  by (induction params) (auto simp: params_get_def params_delete_def)

lemma params_get_set: "params_get (params_set params name v) name = Some v"
  by (induction params) (auto simp: params_get_def)

lemma currentSubpage_handleTabChange:
  "v \<noteq> [] \<Longrightarrow> currentSubpage (handleTabChange v params) = v"
  by (simp add: currentSubpage_def handleTabChange_def params_get_delete params_get_set)

text \<open>
  C10: selecting the \<open>issues\<close> tab deletes the \<open>aiAnalysisSubpage\<close> parameter;
  reading the subpage with the parameter absent yields \<open>issues\<close>; reading after
  selecting either tab value returns that value, and so does reading after
  selecting any non-empty string, which is stored in the parameter unless it is
  \<open>issues\<close>.
\<close>

theorem subpage_round_trip:
  "params_get (handleTabChange ''issues'' params) AI_ANALYSIS_SUBPAGE_PARAM = None \<and>
   (params_get params AI_ANALYSIS_SUBPAGE_PARAM = None \<longrightarrow> currentSubpage params = ''issues'') \<and>
   currentSubpage (handleTabChange (subpage_value tab) params) = subpage_value tab \<and>
   (v \<noteq> [] \<longrightarrow> currentSubpage (handleTabChange v params) = v) \<and>
   (v \<noteq> ''issues'' \<longrightarrow>
      params_get (handleTabChange v params) AI_ANALYSIS_SUBPAGE_PARAM = Some v)"
proof -
  have "subpage_value tab \<noteq> []" by (cases tab) simp_all
  then show ?thesis
    by (simp add: currentSubpage_handleTabChange)
       (simp add: handleTabChange_def params_get_delete params_get_set currentSubpage_def)
qed

theorem subpage_round_trip_witness:
  "params_get [(''aiAnalysisSubpage'', ''runs''), (''x'', ''1'')] AI_ANALYSIS_SUBPAGE_PARAM = Some ''runs'' \<and>
   handleTabChange ''issues'' [(''aiAnalysisSubpage'', ''runs''), (''x'', ''1'')] = [(''x'', ''1'')] \<and>
   params_get [(''x'', ''1'')] AI_ANALYSIS_SUBPAGE_PARAM = None \<and>
   currentSubpage [(''x'', ''1'')] = ''issues'' \<and>
   ''runs'' \<noteq> [] \<and> ''runs'' \<noteq> ''issues'' \<and>
   handleTabChange ''runs'' [(''x'', ''1'')] = [(''x'', ''1''), (''aiAnalysisSubpage'', ''runs'')] \<and>
   currentSubpage (handleTabChange ''runs'' [(''x'', ''1'')]) = ''runs''"
  using subpage_round_trip [of "[(''x'', ''1'')]" Runs "''runs''"]
  by (simp add: handleTabChange_def params_get_def params_delete_def
      AI_ANALYSIS_SUBPAGE_PARAM_def currentSubpage_def)

subsection \<open>Status changes need evidence; issues need evidence\<close>

text \<open>
  C2: for a stored hypothesis, an \<open>update_hypothesis\<close> call that sets the status
  to VALIDATED or REJECTED fails with \<open>InvalidTransition\<close> when the existing
  evidence together with the newly supplied evidence is empty, and otherwise
  succeeds, storing the new status and the appended evidence.
\<close>

theorem update_hypothesis_terminal_status:
  assumes "store (c, h) = Some doc" and "s = VALIDATED \<or> s = REJECTED"
  shows "(hd_evidence doc @ new_evidence = [] \<longrightarrow>
            update_hypothesis store c h (Some s) new_evidence = Inl InvalidTransition) \<and>
         (hd_evidence doc @ new_evidence \<noteq> [] \<longrightarrow>
            (\<exists>store'. update_hypothesis store c h (Some s) new_evidence = Inr store' \<and>
               get_hypothesis store' c h =
                 Inr (doc\<lparr>hd_status := s, hd_evidence := hd_evidence doc @ new_evidence\<rparr>)))"
  using assms by (auto simp: update_hypothesis_def get_hypothesis_def Let_def)

theorem update_hypothesis_terminal_status_witness:
  "update_hypothesis
     (Map.empty((''run-1'', ''h-1'') \<mapsto>
        \<lparr>hd_id = ''h-1'', hd_statement = ''s'', hd_testing_plan = ''p'', hd_status = TESTING,
         hd_evidence = []\<rparr>))
     ''run-1'' ''h-1'' (Some VALIDATED) [] = Inl InvalidTransition \<and>
   update_hypothesis
     (Map.empty((''run-1'', ''h-1'') \<mapsto>
        \<lparr>hd_id = ''h-1'', hd_statement = ''s'', hd_testing_plan = ''p'', hd_status = TESTING,
         hd_evidence = []\<rparr>))
     ''run-1'' ''h-1'' (Some REJECTED) [] = Inl InvalidTransition \<and>
   (\<exists>store'. update_hypothesis
     (Map.empty((''run-1'', ''h-1'') \<mapsto>
        \<lparr>hd_id = ''h-1'', hd_statement = ''s'', hd_testing_plan = ''p'', hd_status = TESTING,
         hd_evidence = []\<rparr>))
     ''run-1'' ''h-1'' (Some VALIDATED) [\<lparr>trace_id = ''tr-9'', rationale = ''x'', supports = True\<rparr>]
       = Inr store' \<and>
     get_hypothesis store' ''run-1'' ''h-1'' =
       Inr \<lparr>hd_id = ''h-1'', hd_statement = ''s'', hd_testing_plan = ''p'', hd_status = VALIDATED,
            hd_evidence = [\<lparr>trace_id = ''tr-9'', rationale = ''x'', supports = True\<rparr>]\<rparr>)"
  using update_hypothesis_terminal_status
     [of "Map.empty((''run-1'', ''h-1'') \<mapsto>
        \<lparr>hd_id = ''h-1'', hd_statement = ''s'', hd_testing_plan = ''p'', hd_status = TESTING,
         hd_evidence = []\<rparr>)" "''run-1''" "''h-1''"
        "\<lparr>hd_id = ''h-1'', hd_statement = ''s'', hd_testing_plan = ''p'', hd_status = TESTING,
         hd_evidence = []\<rparr>" VALIDATED "[]"]
    update_hypothesis_terminal_status
     [of "Map.empty((''run-1'', ''h-1'') \<mapsto>
        \<lparr>hd_id = ''h-1'', hd_statement = ''s'', hd_testing_plan = ''p'', hd_status = TESTING,
         hd_evidence = []\<rparr>)" "''run-1''" "''h-1''"
        "\<lparr>hd_id = ''h-1'', hd_statement = ''s'', hd_testing_plan = ''p'', hd_status = TESTING,
         hd_evidence = []\<rparr>" REJECTED "[]"]
    update_hypothesis_terminal_status
     [of "Map.empty((''run-1'', ''h-1'') \<mapsto>
        \<lparr>hd_id = ''h-1'', hd_statement = ''s'', hd_testing_plan = ''p'', hd_status = TESTING,
         hd_evidence = []\<rparr>)" "''run-1''" "''h-1''"
        "\<lparr>hd_id = ''h-1'', hd_statement = ''s'', hd_testing_plan = ''p'', hd_status = TESTING,
         hd_evidence = []\<rparr>" VALIDATED "[\<lparr>trace_id = ''tr-9'', rationale = ''x'', supports = True\<rparr>]"]
  by simp

text \<open>
  C3: \<open>create_issue\<close> with an empty evidence list fails with \<open>ValidationError\<close>;
  with a single evidence entry \<open>e\<close> it succeeds, the stored document's evidence is
  \<open>[e]\<close> and its status is OPEN.
\<close>

theorem create_issue_requires_evidence:
  "create_issue store new_id e ttl descr sev [] hyp = Inl ValidationError \<and>
   (\<exists>store'. create_issue store new_id e ttl descr sev [ev] hyp = Inr (new_id, store') \<and>
      (\<exists>doc. get_issue store' e new_id = Inr doc \<and> id_evidence doc = [ev] \<and> id_status doc = OPEN))"
  by (simp add: create_issue_def get_issue_def)

theorem create_issue_requires_evidence_witness:
  "create_issue Map.empty ''i-1'' ''exp-1'' ''t'' ''d'' HIGH [] None = Inl ValidationError \<and>
   (\<exists>store'. create_issue Map.empty ''i-1'' ''exp-1'' ''t'' ''d'' HIGH
        [\<lparr>ie_trace_id = ''tr-1'', ie_rationale = ''r''\<rparr>] None = Inr (''i-1'', store') \<and>
      (\<exists>doc. get_issue store' ''exp-1'' ''i-1'' = Inr doc \<and>
         id_evidence doc = [\<lparr>ie_trace_id = ''tr-1'', ie_rationale = ''r''\<rparr>] \<and> id_status doc = OPEN))"
  using create_issue_requires_evidence
    [of Map.empty "''i-1''" "''exp-1''" "''t''" "''d''" HIGH None "\<lparr>ie_trace_id = ''tr-1'', ie_rationale = ''r''\<rparr>"]
  by simp

end
